theory Spec2Isabelle
  imports Complex_Main "HOL-Library.Word"
begin

section \<open>ex\_pairwise\_average.py: the E-LPIPS average of two images\<close>

text \<open>
  The script is a straight-line program: it parses its arguments, loads two images,
  builds a TensorFlow graph and runs \<open>1 + steps\<close> iterations of projection and Adam
  step, writing snapshots at the checkpoint iterations. The embedding follows the script
  top to bottom. Python integers are \<open>int\<close>, the \<open>tf.int32\<close> counter is a
  \<open>32 word\<close>, the loss and the learning rate are computed on \<open>real\<close>, and the float32 roundings
  of the image path (bounds, rounding of products and sums, conversions to 8 bits) are
  written out.
\<close>

subsection \<open>The checkpoint set (lines 153-157)\<close>

text \<open>
  \<open>range(start, stop, step)\<close> for a positive step, as the list of the values the
  \<open>for\<close> loop visits. The script only uses the steps 500 and 1.
\<close>

function py_range :: "int \<Rightarrow> int \<Rightarrow> int \<Rightarrow> int list" where
  "py_range start stop step =
     (if 0 < step \<and> start < stop then start # py_range (start + step) stop step else [])"
  by pat_completeness auto
termination
  by (relation "measure (\<lambda>(start, stop, step). nat (stop - start))") auto

declare py_range.simps [simp del]

text \<open>
  \<open>checkpoints = [0, 1, ..., 1500]\<close>, then \<open>checkpoints.append(i)\<close> for
  \<open>i in range(2000, 1 + args.steps, 500)\<close>, then \<open>checkpoints.append(args.steps)\<close>,
  then \<open>set(checkpoints)\<close>.
\<close>

definition checkpoints_prefix :: "int list" where
  "checkpoints_prefix =
     [0, 1, 2, 3, 5, 7, 10, 15, 20, 30, 50, 70, 100, 150, 200, 300, 400, 600, 900, 1200, 1500]"

definition checkpoints_list :: "int \<Rightarrow> int list" where
  "checkpoints_list steps = checkpoints_prefix @ py_range 2000 (1 + steps) 500 @ [steps]"

definition checkpoints :: "int \<Rightarrow> int set" where
  "checkpoints steps = set (checkpoints_list steps)"

subsection \<open>Arrays\<close>

text \<open>
  A numpy array or a tensor value: its shape and its elements in row-major order.
\<close>

record 'a ndarray =
  nd_shape :: "nat list"
  nd_data :: "'a list"

text \<open>
  An element of the float32 variable \<open>tf_X\<close>: a number, an infinity or NaN. The numbers
  a float32 can hold are among the reals; the roundings that matter are written out
  where they happen.
\<close>

datatype f32 = Num real | PosInf | NegInf | NaN

text \<open>
  The files of the output directory: \<open>SnapshotPng i\<close> is
  \<open>os.path.join(args.outdir, "{:06d}.png".format(i))\<close> and \<open>SaveNpy i\<close> is
  \<open>os.path.join(args.outdir, "save_{:06d}.npy".format(i))\<close>.
\<close>

datatype out_file = SrcImagePng | DestImagePng | InitialImagePng | SnapshotPng int | SaveNpy int

datatype error =
    UnsupportedMetric
  | UnknownImageType
  | ReadError string
  | IndexError
  | WrongShape string
  | WriteError out_file

text \<open>
  \<open>a[:, :, 0:3]\<close>: an array of fewer than three dimensions raises IndexError. Each of
  the \<open>h * w\<close> positions holds a block of \<open>c * prod rest\<close> elements, of which the
  first \<open>min c 3\<close> channels are kept.
\<close>

fun take_blocks :: "nat \<Rightarrow> nat \<Rightarrow> nat \<Rightarrow> 'a list \<Rightarrow> 'a list" where
  "take_blocks 0 block keep xs = []"
| "take_blocks (Suc n) block keep xs = take keep xs @ take_blocks n block keep (drop block xs)"

definition first_channels :: "'a ndarray \<Rightarrow> error + 'a ndarray" where
  "first_channels a =
     (case nd_shape a of
        h # w # c # rest \<Rightarrow>
          Inr \<lparr>nd_shape = h # w # min c 3 # rest,
               nd_data = take_blocks (h * w) (c * prod_list rest) (min c 3 * prod_list rest)
                           (nd_data a)\<rparr>
      | _ \<Rightarrow> Inl IndexError)"

text \<open>\<open>np.expand_dims(a, 0)\<close>.\<close>

definition expand_dims0 :: "'a ndarray \<Rightarrow> 'a ndarray" where
  "expand_dims0 a = \<lparr>nd_shape = 1 # nd_shape a, nd_data = nd_data a\<rparr>"

text \<open>\<open>a[0]\<close>, also written \<open>a[0, :, :, :]\<close> on a four-dimensional array.\<close>

definition index0 :: "'a ndarray \<Rightarrow> error + 'a ndarray" where
  "index0 a =
     (case nd_shape a of
        [] \<Rightarrow> Inl IndexError
      | n # sh \<Rightarrow>
          if n = 0 then Inl IndexError
          else Inr \<lparr>nd_shape = sh, nd_data = take (prod_list sh) (nd_data a)\<rparr>)"

text \<open>
  The array numpy makes of a Python list of equally shaped arrays (\<open>np.save\<close> converts
  its argument with \<open>np.asanyarray\<close>): one more leading dimension, the length of the
  list.
\<close>

definition np_asarray :: "'a ndarray list \<Rightarrow> 'a ndarray" where
  "np_asarray xs =
     \<lparr>nd_shape = length xs # (case xs of [] \<Rightarrow> [] | x # _ \<Rightarrow> nd_shape x),
      nd_data = concat (map nd_data xs)\<rparr>"

subsection \<open>Clipping (lines 31, 86, 102, 139)\<close>

definition TOLERANCE :: real where
  "TOLERANCE = 0.00001"

text \<open>
  The bounds \<open>TOLERANCE\<close> and \<open>1.0 - TOLERANCE\<close> are Python floats; clipping a float32
  array or tensor converts them to float32. The nearest float32 numbers are
  \<open>2748779 / 2^38\<close> (about 9.999999747e-06) and \<open>2097131 / 2^21\<close> (about
  0.9999899864).
\<close>

definition f32_TOLERANCE :: real where
  "f32_TOLERANCE = 2748779 / 2 ^ 38"

definition f32_ONE_MINUS_TOLERANCE :: real where
  "f32_ONE_MINUS_TOLERANCE = 2097131 / 2 ^ 21"

text \<open>\<open>np.clip\<close> is \<open>minimum(a_max, maximum(a, a_min))\<close>.\<close>

definition np_clip :: "real \<Rightarrow> real \<Rightarrow> real \<Rightarrow> real" where
  "np_clip x a_min a_max = min a_max (max x a_min)"

text \<open>
  \<open>tf.clip_by_value\<close> is \<open>maximum(minimum(t, clip_value_max), clip_value_min)\<close>.
  Comparing with a bound leaves nothing of an infinity but the bound. What the two
  operations leave of a NaN depends on the device that runs them, and is the first
  argument, \<open>nan_result\<close>.
\<close>

fun clip_by_value :: "f32 \<Rightarrow> f32 \<Rightarrow> real \<Rightarrow> real \<Rightarrow> f32" where
  "clip_by_value nan_result (Num t) clip_value_min clip_value_max =
     Num (max (min t clip_value_max) clip_value_min)"
| "clip_by_value nan_result PosInf clip_value_min clip_value_max =
     Num (max clip_value_max clip_value_min)"
| "clip_by_value nan_result NegInf clip_value_min clip_value_max = Num clip_value_min"
| "clip_by_value nan_result NaN clip_value_min clip_value_max = nan_result"

subsection \<open>The learning rate (lines 105-112)\<close>

text \<open>
  \<open>tf_step_f32 = tf.sqrt(100.0 ** 2 + tf_step_f32**2) - 100\<close>, as a function of the
  counter value cast to float, and
  \<open>tf_learning_rate = args.learning_rate / (1.0 + 0.02 * tf_step_f32 ** 0.75)\<close>.
\<close>

definition tf_step_f32 :: "real \<Rightarrow> real" where
  "tf_step_f32 t = sqrt (100.0 ^ 2 + t ^ 2) - 100"

definition tf_learning_rate :: "real \<Rightarrow> real \<Rightarrow> real" where
  "tf_learning_rate learning_rate t = learning_rate / (1.0 + 0.02 * tf_step_f32 t powr 0.75)"

subsection \<open>Arguments, environment and output\<close>

text \<open>The parsed command line (lines 34-43); \<open>images\<close> has exactly two entries.\<close>

record args =
  arg_images :: "string \<times> string"
  arg_outdir :: string
  arg_steps :: int
  arg_metric :: string
  arg_seed :: int
  arg_learning_rate :: real

text \<open>
  What the script takes from outside itself, as parameters:
  \<^item> \<open>np_load\<close> and \<open>imread\<close>: the decoded content of a path, \<open>None\<close> when
    reading raises;
  \<^item> \<open>randn seed k\<close>: the \<open>k\<close>-th sample \<open>np.random.randn\<close> draws after
    \<open>np.random.seed(seed)\<close> (\<open>None\<close>: the generator was not seeded);
  \<^item> \<open>fl\<close>: the rounding of the result of a float32 operation to float32;
  \<^item> \<open>uint8_overflow\<close>: what the conversion of a float outside \<open>0..255\<close> to
    \<open>uint8\<close> gives on the machine, and \<open>nan_to_uint8\<close>: what the conversion of NaN
    gives;
  \<^item> \<open>nan_clipped\<close>: what \<open>tf.clip_by_value\<close> leaves of a NaN on the device;
  \<^item> \<open>imwrite_raises\<close>: whether \<open>imageio.imwrite\<close> raises for a file and an array
    of at most three dimensions (it always raises for more);
  \<^item> \<open>forward\<close>: \<open>elpips.Metric(config).forward\<close> for the metric name and the two
    numbers the configuration was calibrated with; it maps the pair of reference images
    and the candidate to a pair of per-sample distance vectors;
  \<^item> \<open>opt_init\<close> and \<open>adam_minimize\<close>: the state of \<open>tf.train.AdamOptimizer\<close> after
    initialisation, and one run of \<open>minimize(loss)\<close>: from the learning rate, the
    loss as a function of \<open>tf_X\<close>, the optimizer state and the value of \<open>tf_X\<close>
    to the new optimizer state and the new value of \<open>tf_X\<close>;
  \<^item> \<open>read_after_increment i\<close>: the graph orders \<open>tf_increase_step\<close> before the
    optimizer's own operations (line 133) but not before the read of the counter that
    \<open>tf_learning_rate\<close> was built from (line 108), so whether the rate of iteration
    \<open>i\<close> sees the counter before or after its increment is left to the scheduling;
  \<^item> \<open>snapshot_after_update i\<close>: nor does the graph order the read of \<open>tf_X\<close> that
    \<open>tf_X_uint8\<close> was built from (line 102) before the optimizer's update of
    \<open>tf_X\<close>, with which it is fetched in one \<open>sess.run\<close> (line 194), so whether the
    snapshot of iteration \<open>i\<close> sees \<open>tf_X\<close> before or after the update is left to
    the scheduling as well.
\<close>

record 'o env =
  np_load :: "string \<Rightarrow> real ndarray option"
  imread :: "string \<Rightarrow> nat ndarray option"
  randn :: "int option \<Rightarrow> nat \<Rightarrow> real"
  fl :: "real \<Rightarrow> real"
  uint8_overflow :: "real \<Rightarrow> 8 word"
  nan_to_uint8 :: "8 word"
  nan_clipped :: f32
  imwrite_raises :: "out_file \<Rightarrow> 8 word ndarray \<Rightarrow> bool"
  forward :: "string \<Rightarrow> nat \<times> nat \<Rightarrow> real ndarray \<times> real ndarray \<Rightarrow> f32 ndarray
                \<Rightarrow> real list \<times> real list"
  opt_init :: 'o
  adam_minimize :: "real \<Rightarrow> (f32 list \<Rightarrow> error + real) \<Rightarrow> 'o \<Rightarrow> f32 list \<Rightarrow> 'o \<times> f32 list"
  read_after_increment :: "int \<Rightarrow> bool"
  snapshot_after_update :: "int \<Rightarrow> bool"

datatype fetch = Tf_fix_X | Tf_minimize | Tf_loss | Tf_learning_rate | Tf_X_uint8 | Tf_X

text \<open>
  What a run does that is visible from outside, in order. \<open>SessRun fetches X\<close> is a call
  \<open>sess.run(fetches)\<close> that starts with \<open>tf_X\<close> holding \<open>X\<close>;
  \<open>PrintStep i steps loss rate\<close> is the progress line of line 200 without its elapsed
  time; \<open>SetScaleLevels\<close> is the call of line 116 with its two arguments.
\<close>

datatype event =
    MakeDirs string
  | ImWrite out_file "8 word ndarray"
  | SetScaleLevels nat nat
  | SessRun "fetch list" "f32 list"
  | PrintStep int int real real
  | NpSave out_file "f32 ndarray"

subsection \<open>Writing images (lines 77, 78, 87, 202)\<close>

text \<open>
  \<open>astype(np.uint8)\<close> truncates towards zero. A value that truncates to one of
  \<open>0..255\<close> converts to it; what any other value converts to is the machine's.
  \<open>(0.5 + 255.0 * img).astype(np.uint8)\<close> is \<open>to_png E img\<close>, computed in float32.
\<close>

definition astype_uint8 :: "'o env \<Rightarrow> real \<Rightarrow> 8 word" where
  "astype_uint8 E x =
     (if - 1 < x \<and> x < 256 then word_of_int (if 0 \<le> x then \<lfloor>x\<rfloor> else \<lceil>x\<rceil>)
      else uint8_overflow E x)"

definition to_png :: "'o env \<Rightarrow> real ndarray \<Rightarrow> 8 word ndarray" where
  "to_png E img =
     \<lparr>nd_shape = nd_shape img,
      nd_data = map (\<lambda>v. astype_uint8 E (fl E (0.5 + fl E (255.0 * v)))) (nd_data img)\<rparr>"

text \<open>
  \<open>imageio.imwrite\<close>: the event of the file written, or the error it raises. An array of
  more than three dimensions is refused.
\<close>

definition imwrite :: "'o env \<Rightarrow> out_file \<Rightarrow> 8 word ndarray \<Rightarrow> error + event" where
  "imwrite E f arr =
     (if 3 < length (nd_shape arr) \<or> imwrite_raises E f arr then Inl (WriteError f)
      else Inr (ImWrite f arr))"

subsection \<open>Loading the inputs (lines 46-78)\<close>

definition supported_metrics :: "string list" where
  "supported_metrics = [''elpips_vgg'', ''elpips_squeeze_maxpool'', ''lpips_vgg'', ''lpips_squeeze'']"

text \<open>
  The extension \<open>os.path.splitext\<close> returns (POSIX): what follows the last dot of the
  last path component, dot included, unless that component has no dot or nothing but
  dots before its last dot.
\<close>

definition splitext_ext :: "string \<Rightarrow> string" where
  "splitext_ext path =
     (let name = rev (takeWhile (\<lambda>c. c \<noteq> CHR ''/'') (rev path));
          ext = rev (takeWhile (\<lambda>c. c \<noteq> CHR ''.'') (rev name));
          stem = take (length name - length ext - 1) name
      in if CHR ''.'' \<in> set name \<and> (\<exists>c \<in> set stem. c \<noteq> CHR ''.'')
         then CHR ''.'' # ext else [])"

text \<open>\<open>str.lower\<close> on ASCII letters.\<close>

definition lower :: "string \<Rightarrow> string" where
  "lower s =
     map (\<lambda>c. if 65 \<le> (of_char c :: nat) \<and> (of_char c :: nat) \<le> 90
               then char_of ((of_char c :: nat) + 32) else c) s"

definition load_image :: "'o env \<Rightarrow> string \<Rightarrow> error + real ndarray" where
  "load_image E path =
     (let ext = splitext_ext path in
      if lower ext = ''.npy'' then
        (case np_load E path of None \<Rightarrow> Inl (ReadError path) | Some img \<Rightarrow> Inr img)
      else if lower ext \<in> set [''.png'', ''.jpg''] then
        (case imread E path of
           None \<Rightarrow> Inl (ReadError path)
         | Some img \<Rightarrow>
             Inr \<lparr>nd_shape = nd_shape img,
                  nd_data = map (\<lambda>v. fl E (real v / 255.0)) (nd_data img)\<rparr>)
      else Inl UnknownImageType)"

text \<open>
  The loop of lines 73-75 over \<open>enumerate(images)\<close>, with the path \<open>args.images[i]\<close>
  beside each image; \<open>shape0\<close> is \<open>images[0].shape\<close>.
\<close>

fun check_shapes :: "nat list \<Rightarrow> (string \<times> 'a ndarray) list \<Rightarrow> error option" where
  "check_shapes shape0 [] = None"
| "check_shapes shape0 ((path, img) # rest) =
     (if nd_shape img \<noteq> shape0 then Some (WrongShape path) else check_shapes shape0 rest)"

text \<open>
  Lines 62-78. The result is the pair \<open>(images[0], images[1])\<close>; the events are what
  has been done when the result, or the error, is reached.
\<close>

definition load_inputs ::
  "'o env \<Rightarrow> args \<Rightarrow> event list \<times> (error + real ndarray \<times> real ndarray)" where
  "load_inputs E a =
     (let made = [MakeDirs (arg_outdir a)] in
      case load_image E (fst (arg_images a)) of
        Inl e \<Rightarrow> (made, Inl e)
      | Inr loaded0 \<Rightarrow>
      (case first_channels loaded0 of
        Inl e \<Rightarrow> (made, Inl e)
      | Inr src_image \<Rightarrow>
      (case load_image E (snd (arg_images a)) of
        Inl e \<Rightarrow> (made, Inl e)
      | Inr loaded1 \<Rightarrow>
      (case first_channels loaded1 of
        Inl e \<Rightarrow> (made, Inl e)
      | Inr dest_image \<Rightarrow>
      (let images0 = expand_dims0 src_image; images1 = expand_dims0 dest_image in
       case check_shapes (nd_shape images0)
              [(fst (arg_images a), images0), (snd (arg_images a), images1)] of
         Some e \<Rightarrow> (made, Inl e)
       | None \<Rightarrow>
       (case imwrite E SrcImagePng (to_png E src_image) of
         Inl e \<Rightarrow> (made, Inl e)
       | Inr src_written \<Rightarrow>
       (case imwrite E DestImagePng (to_png E dest_image) of
         Inl e \<Rightarrow> (made @ [src_written], Inl e)
       | Inr dest_written \<Rightarrow>
           (made @ [src_written, dest_written], Inr (images0, images1)))))))))"

subsection \<open>The initial image (lines 80-87)\<close>

text \<open>
  \<open>np.random.randn\<close> is called with \<open>images[0].shape[0] .. images[0].shape[3]\<close>; the
  generator is seeded first when \<open>args.seed >= 0\<close>. The samples are cast to float32,
  scaled and shifted in float32, and clipped to the float32 bounds.
\<close>

definition initial_image :: "'o env \<Rightarrow> args \<Rightarrow> nat list \<Rightarrow> error + real ndarray" where
  "initial_image E a shape0 =
     (case shape0 of
        s0 # s1 # s2 # s3 # _ \<Rightarrow>
          (let seed = (if 0 \<le> arg_seed a then Some (arg_seed a) else None);
               noise = map (randn E seed) [0..<s0 * s1 * s2 * s3]
           in Inr \<lparr>nd_shape = [s0, s1, s2, s3],
                   nd_data = map (\<lambda>z. np_clip (fl E (0.5 + fl E (0.2 * fl E z)))
                                         f32_TOLERANCE f32_ONE_MINUS_TOLERANCE) noise\<rparr>)
      | _ \<Rightarrow> Inl IndexError)"

subsection \<open>The graph (lines 90-139)\<close>

text \<open>
  Line 116 reads \<open>image[0].shape[1]\<close> and \<open>image[0].shape[2]\<close>, where \<open>image\<close>
  (here \<open>img\<close>) is the variable the loop of line 73 has left behind: the last entry of
  \<open>images\<close>.
\<close>

definition scale_level_args :: "'a ndarray \<Rightarrow> error + nat \<times> nat" where
  "scale_level_args img =
     (case index0 img of
        Inl e \<Rightarrow> Inl e
      | Inr image0 \<Rightarrow>
          (case nd_shape image0 of
             _ # s1 # s2 # _ \<Rightarrow> Inr (s1, s2)
           | _ \<Rightarrow> Inl IndexError))"

text \<open>
  Lines 121-130: \<open>tf_dist1, tf_dist2 = tf_dists\<close>, each indexed at 0, and
  \<open>tf_loss = tf.square(tf_dist1) + tf.square(tf_dist2)\<close>.
\<close>

definition tf_loss :: "real list \<times> real list \<Rightarrow> error + real" where
  "tf_loss tf_dists =
     (case tf_dists of
        (tf_dist1 # _, tf_dist2 # _) \<Rightarrow> Inr (tf_dist1 * tf_dist1 + tf_dist2 * tf_dist2)
      | _ \<Rightarrow> Inl IndexError)"

text \<open>The loss as a function of the value of \<open>tf_X\<close>, whose shape is fixed.\<close>

definition graph_loss ::
  "'o env \<Rightarrow> string \<Rightarrow> nat \<times> nat \<Rightarrow> real ndarray \<times> real ndarray \<Rightarrow> nat list \<Rightarrow> f32 list
     \<Rightarrow> error + real" where
  "graph_loss E metric scale tf_images shape X =
     tf_loss (forward E metric scale tf_images \<lparr>nd_shape = shape, nd_data = X\<rparr>)"

text \<open>
  Line 102, for one element:
  \<open>tf.cast(tf.floor(255.0 * tf.clip_by_value(tf_X, 0.0, 1.0) + 0.5), tf.uint8)\<close>. The
  product and the sum are rounded to float32; the floor of a float32 number is exact.
\<close>

definition quantize :: "'o env \<Rightarrow> f32 \<Rightarrow> 8 word" where
  "quantize E x =
     (case clip_by_value (nan_clipped E) x 0.0 1.0 of
        Num c \<Rightarrow> word_of_int \<lfloor>fl E (fl E (255.0 * c) + 0.5)\<rfloor>
      | _ \<Rightarrow> nan_to_uint8 E)"

text \<open>
  \<open>tf_X_uint8\<close>: the elements quantized and the slice \<open>[0, :, :, :]\<close> taken, of a
  tensor whose leading dimension is 1 (\<open>main\<close> has indexed the initial image of the
  same shape before).
\<close>

definition tf_X_uint8 :: "'o env \<Rightarrow> nat list \<Rightarrow> f32 list \<Rightarrow> 8 word ndarray" where
  "tf_X_uint8 E shape X =
     \<lparr>nd_shape = tl shape, nd_data = take (prod_list (tl shape)) (map (quantize E) X)\<rparr>"

subsection \<open>The session (lines 146-206)\<close>

text \<open>The variables of the graph: \<open>tf_X\<close>, \<open>step\<close> and the optimizer's slots.\<close>

record 'o vars =
  var_X :: "f32 list"
  var_step :: "32 word"
  var_opt :: 'o

text \<open>
  \<open>sess.run([tf_fix_X])\<close>, line 139: \<open>tf_X\<close> is clipped to the float32 values of
  \<open>TOLERANCE\<close> and \<open>1.0 - TOLERANCE\<close>.
\<close>

definition run_fix_X :: "'o env \<Rightarrow> 'o vars \<Rightarrow> 'o vars" where
  "run_fix_X E s =
     s\<lparr>var_X := map (\<lambda>x. clip_by_value (nan_clipped E) x f32_TOLERANCE f32_ONE_MINUS_TOLERANCE)
                    (var_X s)\<rparr>"

text \<open>
  A run \<open>sess.run(fetches)\<close> that fetches \<open>tf_minimize\<close>, alone (line 167) or among
  the kernels (line 194), from the state \<open>s\<close>: its event, and its outcome. The loss
  is evaluated at the value \<open>tf_X\<close> holds when the run starts: the update needs the
  gradient of the loss and comes after it. The learning rate is the value of
  \<open>tf_learning_rate\<close> in this run; the counter is incremented and the optimizer's
  update is applied to \<open>tf_X\<close>. A failing evaluation of the loss ends the run with
  its error.
\<close>

definition run_minimize ::
  "'o env \<Rightarrow> real \<Rightarrow> (f32 list \<Rightarrow> error + real) \<Rightarrow> fetch list \<Rightarrow> int \<Rightarrow> 'o vars
     \<Rightarrow> event \<times> (error + (real \<times> real) \<times> 'o vars)" where
  "run_minimize E learning_rate loss_fn fetches i s =
     (SessRun fetches (var_X s),
      (case loss_fn (var_X s) of
         Inl e \<Rightarrow> Inl e
       | Inr loss \<Rightarrow>
           (let increased = var_step s + 1;
                seen = (if read_after_increment E i then increased else var_step s);
                rate = tf_learning_rate learning_rate (real_of_int (sint seen));
                (opt, X) = adam_minimize E rate loss_fn (var_opt s) (var_X s)
            in Inr ((loss, rate), \<lparr>var_X = X, var_step = increased, var_opt = opt\<rparr>))))"

text \<open>\<open>sess.run([tf_X])\<close>, line 205: a list with one array.\<close>

definition sess_run_X :: "nat list \<Rightarrow> 'o vars \<Rightarrow> f32 ndarray list" where
  "sess_run_X shape s = [\<lparr>nd_shape = shape, nd_data = var_X s\<rparr>]"

definition kernels :: "fetch list" where
  "kernels = [Tf_loss, Tf_learning_rate, Tf_X_uint8, Tf_minimize]"

text \<open>
  The body of the loop, lines 163-206, for the index \<open>i\<close>. On a checkpoint the
  snapshot is the 8-bit image of \<open>tf_X\<close> as the run of the kernels finds it or as it
  leaves it, by \<open>snapshot_after_update\<close>.
\<close>

definition iteration ::
  "'o env \<Rightarrow> args \<Rightarrow> (f32 list \<Rightarrow> error + real) \<Rightarrow> nat list \<Rightarrow> int set \<Rightarrow> int \<Rightarrow> 'o vars
     \<Rightarrow> event list \<times> (error + 'o vars)" where
  "iteration E a loss_fn shape cps i s =
     (let fixed = run_fix_X E s;
          fix_run = SessRun [Tf_fix_X] (var_X s)
      in if i \<notin> cps then
           (case run_minimize E (arg_learning_rate a) loss_fn [Tf_minimize] i fixed of
              (run, Inl e) \<Rightarrow> ([fix_run, run], Inl e)
            | (run, Inr (_, stepped)) \<Rightarrow> ([fix_run, run], Inr stepped))
         else
           (case run_minimize E (arg_learning_rate a) loss_fn kernels i fixed of
              (run, Inl e) \<Rightarrow> ([fix_run, run], Inl e)
            | (run, Inr ((loss, rate), stepped)) \<Rightarrow>
                (let X_uint8 = tf_X_uint8 E shape
                       (if snapshot_after_update E i then var_X stepped else var_X fixed);
                     shown = [fix_run, run, PrintStep i (arg_steps a) loss rate]
                 in case imwrite E (SnapshotPng i) X_uint8 of
                      Inl e \<Rightarrow> (shown, Inl e)
                    | Inr written \<Rightarrow>
                        (shown @ [written]
                         @ (if i mod 10000 = 0
                            then [SessRun [Tf_X] (var_X stepped),
                                  NpSave (SaveNpy i) (np_asarray (sess_run_X shape stepped))]
                            else []),
                         Inr stepped))))"

text \<open>The loop of line 162 over the indices it visits; an error ends it.\<close>

fun run_loop ::
  "'o env \<Rightarrow> args \<Rightarrow> (f32 list \<Rightarrow> error + real) \<Rightarrow> nat list \<Rightarrow> int set \<Rightarrow> int list \<Rightarrow> 'o vars
     \<Rightarrow> event list \<times> (error + 'o vars)" where
  "run_loop E a loss_fn shape cps [] s = ([], Inr s)"
| "run_loop E a loss_fn shape cps (i # rest) s =
     (case iteration E a loss_fn shape cps i s of
        (evs, Inl e) \<Rightarrow> (evs, Inl e)
      | (evs, Inr s') \<Rightarrow>
          (case run_loop E a loss_fn shape cps rest s' of
             (evs', r) \<Rightarrow> (evs @ evs', r)))"

text \<open>
  Lines 146-162: the variables are initialised (\<open>tf_X\<close> to the initial image, the
  counter to 0), the checkpoints are computed, and the loop runs over
  \<open>range(1 + args.steps)\<close>.
\<close>

definition session ::
  "'o env \<Rightarrow> args \<Rightarrow> (f32 list \<Rightarrow> error + real) \<Rightarrow> real ndarray
     \<Rightarrow> event list \<times> (error + 'o vars)" where
  "session E a loss_fn init_image =
     run_loop E a loss_fn (nd_shape init_image) (checkpoints (arg_steps a))
       (py_range 0 (1 + arg_steps a) 1)
       \<lparr>var_X = map Num (nd_data init_image), var_step = 0, var_opt = opt_init E\<rparr>"

subsection \<open>The whole script\<close>

text \<open>What the script has done when it ends, and the exception it ends with, if any.\<close>

definition main :: "'o env \<Rightarrow> args \<Rightarrow> event list \<times> error option" where
  "main E a =
     (if arg_metric a \<notin> set supported_metrics then ([], Some UnsupportedMetric)
      else
        case load_inputs E a of
          (loaded, Inl e) \<Rightarrow> (loaded, Some e)
        | (loaded, Inr (images0, images1)) \<Rightarrow>
        (case initial_image E a (nd_shape images0) of
          Inl e \<Rightarrow> (loaded, Some e)
        | Inr init_image \<Rightarrow>
        (case index0 init_image of
          Inl e \<Rightarrow> (loaded, Some e)
        | Inr init0 \<Rightarrow>
        (case imwrite E InitialImagePng (to_png E init0) of
          Inl e \<Rightarrow> (loaded, Some e)
        | Inr init_written \<Rightarrow>
        (case scale_level_args images1 of
          Inl e \<Rightarrow> (loaded @ [init_written], Some e)
        | Inr scale \<Rightarrow>
        (case session E a
                (graph_loss E (arg_metric a) scale (images0, images1) (nd_shape init_image))
                init_image of
          (looped, r) \<Rightarrow>
            (loaded @ [init_written, SetScaleLevels (fst scale) (snd scale)] @ looped,
             (case r of Inl e \<Rightarrow> Some e | Inr _ \<Rightarrow> None))))))))"

subsection \<open>Files written\<close>

text \<open>The file an event writes, if it writes one.\<close>

definition written_file :: "event \<Rightarrow> out_file option" where
  "written_file e = (case e of ImWrite f _ \<Rightarrow> Some f | NpSave f _ \<Rightarrow> Some f | _ \<Rightarrow> None)"

text \<open>
  An element of \<open>tf_X\<close> as the projection leaves it: a number between the float32
  bounds, or what the device leaves of a NaN.
\<close>

definition projected :: "'o env \<Rightarrow> f32 \<Rightarrow> bool" where
  "projected E x \<longleftrightarrow>
     x = nan_clipped E \<or> (\<exists>y. x = Num y \<and> f32_TOLERANCE \<le> y \<and> y \<le> f32_ONE_MINUS_TOLERANCE)"

subsection \<open>A small run\<close>

text \<open>
  Concrete inputs on which the script is evaluated below. Two images are 2 by 1 pixels,
  the first with three channels and the second with four; a third is 1 by 1, and a raw
  array is 1 by 1 with two channels. All pixel values are 0 or 255. The noise is zero, so
  the initial image is 0.5 everywhere. The metric stands in for E-LPIPS with the sum of
  absolute differences, and the optimizer for Adam with a step that lowers every number
  by a quarter; the rate is read before the counter's increment and the snapshot before
  the update. Every number these runs compute in float32 is a float32 number already
  (0, 1, 0.25, 0.5, 63.75, 64.25, 127.5, 128, 255, 255.5), so their rounding \<open>fl\<close> is
  the identity.
\<close>

definition demo_imread :: "string \<Rightarrow> nat ndarray option" where
  "demo_imread path =
     (if path = ''a.png'' then Some \<lparr>nd_shape = [2, 1, 3], nd_data = [255, 0, 0, 0, 255, 0]\<rparr>
      else if path = ''b.png'' then
        Some \<lparr>nd_shape = [2, 1, 4], nd_data = [0, 255, 0, 255, 255, 0, 0, 255]\<rparr>
      else if path = ''c.png'' then Some \<lparr>nd_shape = [1, 1, 3], nd_data = [0, 0, 0]\<rparr>
      else None)"

definition demo_np_load :: "string \<Rightarrow> real ndarray option" where
  "demo_np_load path =
     (if path = ''g.npy'' then Some \<lparr>nd_shape = [1, 1, 2], nd_data = [0, 1]\<rparr> else None)"

definition demo_dist :: "real list \<Rightarrow> f32 list \<Rightarrow> real" where
  "demo_dist r x = sum_list (map2 (\<lambda>u t. case t of Num v \<Rightarrow> \<bar>u - v\<bar> | _ \<Rightarrow> 0) r x)"

definition demo_forward ::
  "string \<Rightarrow> nat \<times> nat \<Rightarrow> real ndarray \<times> real ndarray \<Rightarrow> f32 ndarray \<Rightarrow> real list \<times> real list" where
  "demo_forward metric scale tf_images X =
     ([demo_dist (nd_data (fst tf_images)) (nd_data X)],
      [demo_dist (nd_data (snd tf_images)) (nd_data X)])"

definition demo_adam ::
  "real \<Rightarrow> (f32 list \<Rightarrow> error + real) \<Rightarrow> unit \<Rightarrow> f32 list \<Rightarrow> unit \<times> f32 list" where
  "demo_adam rate loss_fn opt X =
     (opt, map (\<lambda>t. case t of Num x \<Rightarrow> Num (x - 1 / 4) | _ \<Rightarrow> t) X)"

definition demo_env :: "unit env" where
  "demo_env =
     \<lparr>np_load = demo_np_load, imread = demo_imread, randn = (\<lambda>seed k. 0), fl = (\<lambda>x. x),
      uint8_overflow = (\<lambda>x. 0), nan_to_uint8 = 0, nan_clipped = NaN,
      imwrite_raises = (\<lambda>f arr. False), forward = demo_forward, opt_init = (),
      adam_minimize = demo_adam, read_after_increment = (\<lambda>i. False),
      snapshot_after_update = (\<lambda>i. False)\<rparr>"

definition demo_args :: args where
  "demo_args =
     \<lparr>arg_images = (''a.png'', ''b.png''), arg_outdir = ''out_bary2'', arg_steps = 1,
      arg_metric = ''elpips_vgg'', arg_seed = - 1, arg_learning_rate = 0.03\<rparr>"

definition demo_half :: "f32 list" where
  "demo_half = [Num (1 / 2), Num (1 / 2), Num (1 / 2), Num (1 / 2), Num (1 / 2), Num (1 / 2)]"

definition demo_quarter :: "f32 list" where
  "demo_quarter = [Num (1 / 4), Num (1 / 4), Num (1 / 4), Num (1 / 4), Num (1 / 4), Num (1 / 4)]"

definition demo_trace :: "event list" where
  "demo_trace =
     [MakeDirs ''out_bary2'',
      ImWrite SrcImagePng \<lparr>nd_shape = [2, 1, 3], nd_data = [255, 0, 0, 0, 255, 0]\<rparr>,
      ImWrite DestImagePng \<lparr>nd_shape = [2, 1, 3], nd_data = [0, 255, 0, 255, 0, 0]\<rparr>,
      ImWrite InitialImagePng \<lparr>nd_shape = [2, 1, 3], nd_data = [128, 128, 128, 128, 128, 128]\<rparr>,
      SetScaleLevels 1 3,
      SessRun [Tf_fix_X] demo_half,
      SessRun kernels demo_half,
      PrintStep 0 1 18 (tf_learning_rate (3 / 100) 0),
      ImWrite (SnapshotPng 0) \<lparr>nd_shape = [2, 1, 3], nd_data = [128, 128, 128, 128, 128, 128]\<rparr>,
      SessRun [Tf_X] demo_quarter,
      NpSave (SaveNpy 0) \<lparr>nd_shape = [1, 1, 2, 1, 3], nd_data = demo_quarter\<rparr>,
      SessRun [Tf_fix_X] demo_quarter,
      SessRun kernels demo_quarter,
      PrintStep 1 1 (25 / 2) (tf_learning_rate (3 / 100) 1),
      ImWrite (SnapshotPng 1) \<lparr>nd_shape = [2, 1, 3], nd_data = [64, 64, 64, 64, 64, 64]\<rparr>]"

definition demo_trace_two :: "event list" where
  "demo_trace_two =
     [MakeDirs ''out_bary2'',
      ImWrite SrcImagePng \<lparr>nd_shape = [1, 1, 2], nd_data = [0, 255]\<rparr>,
      ImWrite DestImagePng \<lparr>nd_shape = [1, 1, 2], nd_data = [0, 255]\<rparr>,
      ImWrite InitialImagePng \<lparr>nd_shape = [1, 1, 2], nd_data = [128, 128]\<rparr>,
      SetScaleLevels 1 2,
      SessRun [Tf_fix_X] [Num (1 / 2), Num (1 / 2)],
      SessRun kernels [Num (1 / 2), Num (1 / 2)],
      PrintStep 0 0 2 (tf_learning_rate (3 / 100) 0),
      ImWrite (SnapshotPng 0) \<lparr>nd_shape = [1, 1, 2], nd_data = [128, 128]\<rparr>,
      SessRun [Tf_X] [Num (1 / 4), Num (1 / 4)],
      NpSave (SaveNpy 0) \<lparr>nd_shape = [1, 1, 1, 1, 2], nd_data = [Num (1 / 4), Num (1 / 4)]\<rparr>]"

text \<open>
  States of the session: one whose \<open>tf_X\<close> holds 0, 1, numbers outside \<open>[0, 1]\<close>,
  the infinities and NaN, and the state the small run starts its loop with.
  \<open>demo_loss\<close> is the loss of the small run's graph; \<open>demo_args_mismatch\<close> pairs the
  first image with the third, and \<open>demo_args_two\<close> runs a single iteration on the raw
  array of two channels.
\<close>

definition demo_outside :: "unit vars" where
  "demo_outside =
     \<lparr>var_X = [Num 0, Num 1, Num (- 3), Num 2, Num (1 / 2), PosInf, NegInf, NaN],
      var_step = 0, var_opt = ()\<rparr>"

definition demo_start :: "unit vars" where
  "demo_start = \<lparr>var_X = demo_half, var_step = 0, var_opt = ()\<rparr>"

definition demo_loss :: "f32 list \<Rightarrow> error + real" where
  "demo_loss =
     graph_loss demo_env ''elpips_vgg'' (1, 3)
       (\<lparr>nd_shape = [1, 2, 1, 3], nd_data = [1, 0, 0, 0, 1, 0]\<rparr>,
        \<lparr>nd_shape = [1, 2, 1, 3], nd_data = [0, 1, 0, 1, 0, 0]\<rparr>)
       [1, 2, 1, 3]"

definition demo_args_mismatch :: args where
  "demo_args_mismatch = demo_args\<lparr>arg_images := (''a.png'', ''c.png'')\<rparr>"

definition demo_args_two :: args where
  "demo_args_two = demo_args\<lparr>arg_images := (''g.npy'', ''g.npy''), arg_steps := 0\<rparr>"

subsection \<open>Facts about \<open>range\<close>\<close>

lemma py_range_empty: "stop \<le> start \<Longrightarrow> py_range start stop step = []"
  by (simp add: py_range.simps)

lemma py_range_bounds:
  "x \<in> set (py_range start stop step) \<Longrightarrow> start \<le> x \<and> x < stop"
proof (induction start stop step rule: py_range.induct)
  case (1 start stop step)
  show ?case
  proof (cases "0 < step \<and> start < stop")
    case True
    with "1.prems" have "x = start \<or> x \<in> set (py_range (start + step) stop step)"
      by (simp add: py_range.simps [of start stop step])
    then show ?thesis
    proof
      assume "x = start"
      with True show ?thesis by simp
    next
      assume "x \<in> set (py_range (start + step) stop step)"
      with "1.IH" True have "start + step \<le> x \<and> x < stop" by blast
      with True show ?thesis by simp
    qed
  next
    case False
    with "1.prems" show ?thesis by (simp add: py_range.simps [of start stop step])
  qed
qed

lemma py_range_mono:
  "stop \<le> stop' \<Longrightarrow> x \<in> set (py_range start stop step) \<Longrightarrow>
   x \<in> set (py_range start stop' step)"
proof (induction start stop step rule: py_range.induct)
  case (1 start stop step)
  show ?case
  proof (cases "0 < step \<and> start < stop")
    case True
    with "1.prems" have in': "0 < step \<and> start < stop'" by simp
    from True "1.prems" have "x = start \<or> x \<in> set (py_range (start + step) stop step)"
      by (simp add: py_range.simps [of start stop step])
    then show ?thesis
    proof
      assume "x = start"
      with in' show ?thesis by (simp add: py_range.simps [of start stop' step])
    next
      assume "x \<in> set (py_range (start + step) stop step)"
      with "1.IH" True "1.prems" have "x \<in> set (py_range (start + step) stop' step)"
        by blast
      with in' show ?thesis by (simp add: py_range.simps [of start stop' step])
    qed
  next
    case False
    with "1.prems" show ?thesis by (simp add: py_range.simps [of start stop step])
  qed
qed

lemma py_range_unit: "py_range start stop 1 = [start..stop - 1]"
proof (induction start stop "1::int" rule: py_range.induct)
  case (1 start stop)
  show ?case
  proof (cases "start < stop")
    case True
    with 1 have "py_range start stop 1 = start # [start + 1..stop - 1]"
      by (simp add: py_range.simps [of start stop 1])
    also from True have "\<dots> = [start..stop - 1]"
      by (simp add: upto_rec1)
    finally show ?thesis .
  next
    case False
    then show ?thesis by (simp add: py_range.simps [of start stop 1])
  qed
qed

lemma prefix_bounds: "x \<in> set checkpoints_prefix \<Longrightarrow> 0 \<le> x \<and> x \<le> 1500"
  by (auto simp: checkpoints_prefix_def)

lemma checkpoints_iff:
  "c \<in> checkpoints steps \<longleftrightarrow>
     c \<in> set checkpoints_prefix \<or> c \<in> set (py_range 2000 (1 + steps) 500) \<or> c = steps"
  by (auto simp: checkpoints_def checkpoints_list_def)

subsection \<open>Facts about the learning rate and the projection\<close>









lemma f32_bounds:
  "0 < f32_TOLERANCE" "f32_TOLERANCE < TOLERANCE"
  "f32_TOLERANCE \<le> f32_ONE_MINUS_TOLERANCE" "f32_ONE_MINUS_TOLERANCE < 1 - TOLERANCE"
  by (simp_all add: f32_TOLERANCE_def f32_ONE_MINUS_TOLERANCE_def TOLERANCE_def)

lemma clip_in_range:
  assumes "lo \<le> hi" and "x \<noteq> NaN"
  shows "\<exists>y. clip_by_value nan_result x lo hi = Num y \<and> lo \<le> y \<and> y \<le> hi"
  using assms by (cases x) auto

lemma clip_projected:
  "projected E (clip_by_value (nan_clipped E) x f32_TOLERANCE f32_ONE_MINUS_TOLERANCE)"
proof (cases "x = NaN")
  case True
  then show ?thesis by (simp add: projected_def)
next
  case False
  from clip_in_range [OF f32_bounds(3) this] show ?thesis
    by (auto simp: projected_def)
qed

lemma run_fix_X_range: "x \<in> set (var_X (run_fix_X E s)) \<Longrightarrow> projected E x"
  using clip_projected by (auto simp: run_fix_X_def)

subsection \<open>Facts about the events of a run\<close>

lemma imwrite_event: "imwrite E f arr = Inr e \<Longrightarrow> e = ImWrite f arr \<and> length (nd_shape arr) \<le> 3"
  by (auto simp: imwrite_def split: if_splits)

lemma iteration_events:
  assumes "e \<in> set (fst (iteration E a loss_fn shape cps i s))"
  shows "e = SessRun [Tf_fix_X] (var_X s) \<or>
         e = SessRun [Tf_minimize] (var_X (run_fix_X E s)) \<or>
         e = SessRun kernels (var_X (run_fix_X E s)) \<or>
         (\<exists>loss rate. e = PrintStep i (arg_steps a) loss rate) \<or>
         (\<exists>img. e = ImWrite (SnapshotPng i) img) \<or>
         (\<exists>X. e = SessRun [Tf_X] X) \<or>
         (\<exists>X. e = NpSave (SaveNpy i) (np_asarray [\<lparr>nd_shape = shape, nd_data = X\<rparr>]))"
  using assms
  by (auto simp: iteration_def run_minimize_def Let_def sess_run_X_def
      dest!: imwrite_event split: sum.splits prod.splits if_splits)

lemma run_loop_events:
  "e \<in> set (fst (run_loop E a loss_fn shape cps idx s)) \<Longrightarrow>
   \<exists>i \<in> set idx. \<exists>s0. e \<in> set (fst (iteration E a loss_fn shape cps i s0)) \<and>
     set (fst (iteration E a loss_fn shape cps i s0))
       \<subseteq> set (fst (run_loop E a loss_fn shape cps idx s))"
proof (induction idx arbitrary: s)
  case Nil
  then show ?case by simp
next
  case (Cons i idx)
  obtain evs r where it: "iteration E a loss_fn shape cps i s = (evs, r)"
    by (cases "iteration E a loss_fn shape cps i s")
  show ?case
  proof (cases r)
    case (Inl err)
    with it have "fst (run_loop E a loss_fn shape cps (i # idx) s) = evs"
      by simp
    with it Cons.prems show ?thesis
      by (intro bexI [of _ i] exI [of _ s]) simp_all
  next
    case (Inr s')
    with it have whole: "fst (run_loop E a loss_fn shape cps (i # idx) s)
        = evs @ fst (run_loop E a loss_fn shape cps idx s')"
      by (simp split: prod.splits)
    with Cons.prems have
      "e \<in> set evs \<or> e \<in> set (fst (run_loop E a loss_fn shape cps idx s'))"
      by auto
    then show ?thesis
    proof
      assume "e \<in> set evs"
      with it whole show ?thesis
        by (intro bexI [of _ i] exI [of _ s]) simp_all
    next
      assume "e \<in> set (fst (run_loop E a loss_fn shape cps idx s'))"
      from Cons.IH [OF this] obtain j s0 where "j \<in> set idx"
        and "e \<in> set (fst (iteration E a loss_fn shape cps j s0))"
        and "set (fst (iteration E a loss_fn shape cps j s0))
               \<subseteq> set (fst (run_loop E a loss_fn shape cps idx s'))"
        by blast
      with whole show ?thesis
        by (intro bexI [of _ j] exI [of _ s0]) auto
    qed
  qed
qed

lemma loop_indices: "py_range 0 (1 + steps) 1 = [0..steps]"
  by (simp add: py_range_unit)

lemma session_events:
  assumes "e \<in> set (fst (session E a loss_fn init_image))"
  shows "\<exists>i s0. 0 \<le> i \<and> i \<le> arg_steps a \<and>
           e \<in> set (fst (iteration E a loss_fn (nd_shape init_image)
                            (checkpoints (arg_steps a)) i s0)) \<and>
           set (fst (iteration E a loss_fn (nd_shape init_image)
                       (checkpoints (arg_steps a)) i s0))
             \<subseteq> set (fst (session E a loss_fn init_image))"
proof -
  from assms obtain i s0 where "i \<in> set (py_range 0 (1 + arg_steps a) 1)"
    and "e \<in> set (fst (iteration E a loss_fn (nd_shape init_image)
                            (checkpoints (arg_steps a)) i s0))"
    and "set (fst (iteration E a loss_fn (nd_shape init_image)
                     (checkpoints (arg_steps a)) i s0))
           \<subseteq> set (fst (session E a loss_fn init_image))"
    unfolding session_def by (blast dest: run_loop_events)
  then show ?thesis by (auto simp: loop_indices)
qed

lemma load_inputs_events:
  assumes "e \<in> set (fst (load_inputs E a))"
  shows "e = MakeDirs (arg_outdir a) \<or> (\<exists>d. e = ImWrite SrcImagePng d) \<or>
         (\<exists>d. e = ImWrite DestImagePng d)"
  using assms
  by (auto simp: load_inputs_def Let_def dest!: imwrite_event split: sum.splits option.splits)

lemma first_channels_shape:
  assumes "first_channels loaded = Inr kept"
  shows "\<exists>H W C rest. nd_shape loaded = H # W # C # rest \<and> nd_shape kept = H # W # min C 3 # rest"
  using assms by (auto simp: first_channels_def split: list.splits)

lemma load_inputs_shape:
  assumes "load_inputs E a = (evs, Inr (images0, images1))"
  shows "\<exists>loaded H W C. load_image E (fst (arg_images a)) = Inr loaded \<and>
           nd_shape loaded = [H, W, C] \<and> nd_shape images0 = [1, H, W, min C 3]"
proof -
  from assms obtain loaded src_image where
    loaded: "load_image E (fst (arg_images a)) = Inr loaded"
    and kept: "first_channels loaded = Inr src_image"
    and images0: "images0 = expand_dims0 src_image"
    and written: "\<exists>e. imwrite E SrcImagePng (to_png E src_image) = Inr e"
    by (auto simp: load_inputs_def Let_def split: sum.splits option.splits)
  from first_channels_shape [OF kept] obtain H W C rest where
    shapes: "nd_shape loaded = H # W # C # rest" "nd_shape src_image = H # W # min C 3 # rest"
    by blast
  from written have "length (nd_shape src_image) \<le> 3"
    by (auto simp: to_png_def dest!: imwrite_event)
  with shapes have "rest = []" by simp
  with loaded shapes images0 show ?thesis
    by (simp add: expand_dims0_def)
qed

lemma main_trace:
  assumes "arg_metric a \<in> set supported_metrics" and "load_inputs E a = (evs, r)"
  shows "fst (main E a) = evs \<or> (\<exists>d. fst (main E a) = evs @ [ImWrite InitialImagePng d]) \<or>
         (\<exists>images0 images1 init_image d scale.
            r = Inr (images0, images1) \<and>
            initial_image E a (nd_shape images0) = Inr init_image \<and>
            fst (main E a)
              = evs @ [ImWrite InitialImagePng d, SetScaleLevels (fst scale) (snd scale)]
                @ fst (session E a
                        (graph_loss E (arg_metric a) scale (images0, images1)
                           (nd_shape init_image))
                        init_image))"
proof (cases r)
  case (Inl err)
  with assms show ?thesis by (simp add: main_def)
next
  case (Inr images)
  obtain images0 images1 where images: "images = (images0, images1)"
    by (cases images)
  show ?thesis
  proof (cases "initial_image E a (nd_shape images0)")
    case (Inl err)
    with assms Inr images show ?thesis by (simp add: main_def)
  next
    case init: (Inr init_image)
    show ?thesis
    proof (cases "index0 init_image")
      case (Inl err)
      with assms Inr images init show ?thesis by (simp add: main_def)
    next
      case indexed: (Inr init0)
      show ?thesis
      proof (cases "imwrite E InitialImagePng (to_png E init0)")
        case (Inl err)
        with assms Inr images init indexed show ?thesis by (simp add: main_def)
      next
        case written: (Inr w)
        then have w: "w = ImWrite InitialImagePng (to_png E init0)"
          by (simp add: imwrite_event)
        show ?thesis
        proof (cases "scale_level_args images1")
          case (Inl err)
          with assms Inr images init indexed written w show ?thesis
            by (simp add: main_def)
        next
          case scaled: (Inr scale)
          from assms Inr images init indexed written w scaled have
            "fst (main E a)
              = evs @ [ImWrite InitialImagePng (to_png E init0),
                       SetScaleLevels (fst scale) (snd scale)]
                @ fst (session E a
                        (graph_loss E (arg_metric a) scale (images0, images1)
                           (nd_shape init_image))
                        init_image)"
            by (simp add: main_def split: prod.splits)
          with Inr images init show ?thesis by blast
        qed
      qed
    qed
  qed
qed

lemma main_events:
  assumes "e \<in> set (fst (main E a))"
  shows "e \<in> set (fst (load_inputs E a)) \<or> (\<exists>d. e = ImWrite InitialImagePng d) \<or>
         (\<exists>p q. e = SetScaleLevels p q) \<or>
         (\<exists>evs images0 images1 init_image loss_fn.
            load_inputs E a = (evs, Inr (images0, images1)) \<and>
            initial_image E a (nd_shape images0) = Inr init_image \<and>
            e \<in> set (fst (session E a loss_fn init_image)) \<and>
            set (fst (session E a loss_fn init_image)) \<subseteq> set (fst (main E a)))"
proof (cases "arg_metric a \<in> set supported_metrics")
  case False
  with assms show ?thesis by (simp add: main_def)
next
  case True
  obtain evs r where loaded: "load_inputs E a = (evs, r)"
    by (cases "load_inputs E a")
  from main_trace [OF True loaded] consider (stopped) "fst (main E a) = evs"
    | (initial) d where "fst (main E a) = evs @ [ImWrite InitialImagePng d]"
    | (looped) images0 images1 init_image d scale where
        "r = Inr (images0, images1)"
        "initial_image E a (nd_shape images0) = Inr init_image"
        "fst (main E a) = evs @ [ImWrite InitialImagePng d, SetScaleLevels (fst scale) (snd scale)]
           @ fst (session E a
                   (graph_loss E (arg_metric a) scale (images0, images1) (nd_shape init_image))
                   init_image)"
    by blast
  then show ?thesis
  proof cases
    case stopped
    with assms loaded show ?thesis by simp
  next
    case initial
    with assms loaded show ?thesis by auto
  next
    case looped
    let ?run = "fst (session E a
        (graph_loss E (arg_metric a) scale (images0, images1) (nd_shape init_image)) init_image)"
    from looped(3) have sub: "set ?run \<subseteq> set (fst (main E a))" by auto
    from assms looped(3) have "e \<in> set evs \<or> e = ImWrite InitialImagePng d \<or>
        e = SetScaleLevels (fst scale) (snd scale) \<or> e \<in> set ?run"
      by auto
    then show ?thesis
    proof (elim disjE)
      assume "e \<in> set ?run"
      with looped(1,2) loaded sub show ?thesis by blast
    qed (use loaded in auto)
  qed
qed

lemma iteration_checkpoint:
  assumes "i \<in> cps"
    and "run_minimize E (arg_learning_rate a) loss_fn kernels i (run_fix_X E s)
           = (run, Inr ((loss, rate), stepped))"
    and "imwrite E (SnapshotPng i)
           (tf_X_uint8 E shape
              (if snapshot_after_update E i then var_X stepped else var_X (run_fix_X E s)))
           = Inr written"
  shows "iteration E a loss_fn shape cps i s =
           ([SessRun [Tf_fix_X] (var_X s), run, PrintStep i (arg_steps a) loss rate, written]
            @ (if i mod 10000 = 0
               then [SessRun [Tf_X] (var_X stepped),
                     NpSave (SaveNpy i) (np_asarray (sess_run_X shape stepped))]
               else []),
            Inr stepped)"
  using assms by (simp add: iteration_def Let_def split del: if_split)

lemma raw_save_is_tf_X:
  assumes "NpSave f arr \<in> set (fst (iteration E a loss_fn shape cps i s))"
  shows "f = SaveNpy i \<and> arr = np_asarray [\<lparr>nd_shape = shape, nd_data = nd_data arr\<rparr>] \<and>
         nd_shape arr = 1 # shape \<and>
         SessRun [Tf_X] (nd_data arr) \<in> set (fst (iteration E a loss_fn shape cps i s)) \<and>
         (\<exists>s'. snd (iteration E a loss_fn shape cps i s) = Inr s' \<and> nd_data arr = var_X s')"
proof -
  let ?fixed = "run_fix_X E s"
  obtain run r where
    ran: "run_minimize E (arg_learning_rate a) loss_fn kernels i ?fixed = (run, r)"
    by (cases "run_minimize E (arg_learning_rate a) loss_fn kernels i ?fixed")
  then have run: "run = SessRun kernels (var_X ?fixed)"
    by (auto simp: run_minimize_def)
  show ?thesis
  proof (cases "i \<in> cps")
    case False
    with assms show ?thesis
      by (auto simp: iteration_def run_minimize_def Let_def split: sum.splits prod.splits)
  next
    case True
    show ?thesis
    proof (cases r)
      case (Inl err)
      with assms True ran run show ?thesis
        by (simp add: iteration_def Let_def)
    next
      case (Inr res)
      obtain loss rate stepped where res: "res = ((loss, rate), stepped)"
        by (cases res) auto
      let ?img = "tf_X_uint8 E shape
          (if snapshot_after_update E i then var_X stepped else var_X ?fixed)"
      show ?thesis
      proof (cases "imwrite E (SnapshotPng i) ?img")
        case (Inl err)
        with assms True ran run Inr res show ?thesis
          by (simp add: iteration_def Let_def split del: if_split)
      next
        case written: (Inr w)
        from ran Inr res have
          "run_minimize E (arg_learning_rate a) loss_fn kernels i ?fixed
             = (run, Inr ((loss, rate), stepped))"
          by simp
        from iteration_checkpoint [OF True this written] assms run
          imwrite_event [OF written]
        show ?thesis
          by (auto simp: sess_run_X_def np_asarray_def split: if_splits)
      qed
    qed
  qed
qed

lemma scale_level_args_of_image:
  "nd_shape img = [H, W, C] \<Longrightarrow> scale_level_args (expand_dims0 img) = Inr (W, C)"
  by (simp add: scale_level_args_def index0_def expand_dims0_def)

lemma first_channels_rgb:
  "first_channels \<lparr>nd_shape = [h, w, 3], nd_data = d\<rparr>
     = Inr \<lparr>nd_shape = [h, w, 3], nd_data = take_blocks (h * w) 3 3 d\<rparr>"
  by (simp add: first_channels_def)

lemma initial_image_shape:
  assumes "initial_image E a [s0, s1, s2, s3] = Inr init_image"
  shows "nd_shape init_image = [s0, s1, s2, s3]"
  using assms by (auto simp: initial_image_def Let_def)

subsection \<open>The small run, evaluated\<close>

lemma demo_load_a:
  "load_image demo_env ''a.png'' = Inr \<lparr>nd_shape = [2, 1, 3], nd_data = [1, 0, 0, 0, 1, 0]\<rparr>"
  by (simp add: load_image_def splitext_ext_def lower_def demo_env_def demo_imread_def)

lemma demo_load_b:
  "load_image demo_env ''b.png'' =
     Inr \<lparr>nd_shape = [2, 1, 4], nd_data = [0, 1, 0, 1, 1, 0, 0, 1]\<rparr>"
  by (simp add: load_image_def splitext_ext_def lower_def demo_env_def demo_imread_def)

lemma demo_load_c:
  "load_image demo_env ''c.png'' = Inr \<lparr>nd_shape = [1, 1, 3], nd_data = [0, 0, 0]\<rparr>"
  by (simp add: load_image_def splitext_ext_def lower_def demo_env_def demo_imread_def)

lemma demo_load_g:
  "load_image demo_env ''g.npy'' = Inr \<lparr>nd_shape = [1, 1, 2], nd_data = [0, 1]\<rparr>"
  by (simp add: load_image_def splitext_ext_def lower_def demo_env_def demo_np_load_def)

lemma demo_range: "py_range 0 2 1 = [0, 1]" "py_range 0 1 1 = [0]"
  by (simp_all add: py_range.simps [of 0 2 1] py_range.simps [of 1 2 1] py_range.simps [of 0 1 1]
      py_range_empty)

lemma demo_load_inputs:
  "load_inputs demo_env demo_args =
     (take 3 demo_trace,
      Inr (\<lparr>nd_shape = [1, 2, 1, 3], nd_data = [1, 0, 0, 0, 1, 0]\<rparr>,
           \<lparr>nd_shape = [1, 2, 1, 3], nd_data = [0, 1, 0, 1, 0, 0]\<rparr>))"
  apply (simp add: load_inputs_def demo_load_a demo_load_b first_channels_def numeral_2_eq_2
      demo_args_def expand_dims0_def)
  apply (simp add: to_png_def astype_uint8_def imwrite_def demo_env_def demo_trace_def)
  done

lemma demo_main: "main demo_env demo_args = (demo_trace, None)"
  apply (simp add: main_def demo_load_inputs supported_metrics_def)
  apply (simp add: demo_args_def initial_image_def np_clip_def f32_TOLERANCE_def
      f32_ONE_MINUS_TOLERANCE_def upt_rec demo_env_def index0_def scale_level_args_def
      to_png_def astype_uint8_def imwrite_def)
  apply (simp add: session_def demo_range iteration_def checkpoints_iff checkpoints_prefix_def
      run_fix_X_def f32_TOLERANCE_def f32_ONE_MINUS_TOLERANCE_def run_minimize_def
      tf_X_uint8_def quantize_def imwrite_def sess_run_X_def np_asarray_def Let_def
      graph_loss_def tf_loss_def demo_forward_def demo_dist_def demo_adam_def demo_trace_def
      demo_half_def demo_quarter_def)
  done

lemma demo_main_two: "main demo_env demo_args_two = (demo_trace_two, None)"
proof -
  have two: "[0..<2] = [0, Suc 0]"
    by (simp add: upt_rec)
  have loaded: "load_inputs demo_env demo_args_two =
     (take 3 demo_trace_two,
      Inr (\<lparr>nd_shape = [1, 1, 1, 2], nd_data = [0, 1]\<rparr>,
           \<lparr>nd_shape = [1, 1, 1, 2], nd_data = [0, 1]\<rparr>))"
    apply (simp add: load_inputs_def demo_args_two_def demo_load_g first_channels_def
        expand_dims0_def)
    apply (simp add: to_png_def astype_uint8_def imwrite_def demo_env_def demo_trace_two_def
        Let_def demo_args_def)
    done
  show ?thesis
    apply (simp add: main_def loaded supported_metrics_def)
    apply (simp add: demo_args_two_def demo_args_def initial_image_def np_clip_def
        f32_TOLERANCE_def f32_ONE_MINUS_TOLERANCE_def two demo_env_def index0_def
        scale_level_args_def to_png_def astype_uint8_def imwrite_def)
    apply (simp add: session_def demo_range iteration_def checkpoints_iff checkpoints_prefix_def
        run_fix_X_def f32_TOLERANCE_def f32_ONE_MINUS_TOLERANCE_def run_minimize_def
        tf_X_uint8_def quantize_def imwrite_def sess_run_X_def np_asarray_def Let_def
        graph_loss_def tf_loss_def demo_forward_def demo_dist_def demo_adam_def
        demo_trace_two_def)
    done
qed

lemma demo_iteration:
  "iteration demo_env demo_args demo_loss [1, 2, 1, 3] (checkpoints 1) 0 demo_start =
     (take 6 (drop 5 demo_trace), Inr \<lparr>var_X = demo_quarter, var_step = 1, var_opt = ()\<rparr>)"
  by (simp add: iteration_def checkpoints_iff checkpoints_prefix_def demo_start_def demo_loss_def
      run_fix_X_def f32_TOLERANCE_def f32_ONE_MINUS_TOLERANCE_def run_minimize_def
      tf_X_uint8_def quantize_def imwrite_def sess_run_X_def np_asarray_def Let_def
      graph_loss_def tf_loss_def demo_env_def demo_forward_def demo_dist_def demo_adam_def
      demo_trace_def demo_args_def demo_half_def demo_quarter_def)


subsection \<open>Claims about the checkpoint set\<close>

text \<open>
  C1, as the code has it. The set contains 0 and \<open>steps\<close>. The fixed prefix is added
  whatever \<open>steps\<close> is, so the elements are bounded by the larger of \<open>steps\<close>
  and 1500, the last prefix entry; from \<open>steps = 1500\<close> on that bound is \<open>steps\<close>.
\<close>

theorem checkpoints_contents:
  "0 \<le> steps \<Longrightarrow>
     0 \<in> checkpoints steps \<and> steps \<in> checkpoints steps \<and>
     (\<forall>c \<in> checkpoints steps. 0 \<le> c \<and> c \<le> max steps 1500)"
proof -
  assume nonneg: "0 \<le> steps"
  have zero: "0 \<in> checkpoints steps"
    by (simp add: checkpoints_iff checkpoints_prefix_def)
  have last: "steps \<in> checkpoints steps"
    by (simp add: checkpoints_iff)
  have "0 \<le> c \<and> c \<le> max steps 1500" if "c \<in> checkpoints steps" for c
  proof -
    from that consider "c \<in> set checkpoints_prefix"
      | "c \<in> set (py_range 2000 (1 + steps) 500)" | "c = steps"
      by (auto simp: checkpoints_iff)
    then show ?thesis
    proof cases
      case 1
      then show ?thesis using prefix_bounds [of c] by linarith
    next
      case 2
      then show ?thesis using py_range_bounds [of c 2000 "1 + steps" 500] by linarith
    next
      case 3
      with nonneg show ?thesis by linarith
    qed
  qed
  with zero last show ?thesis by blast
qed

theorem checkpoints_contents_witness:
  "(0::int) \<le> 10 \<and> 0 \<in> checkpoints 10 \<and> 10 \<in> checkpoints 10 \<and>
   7 \<in> checkpoints 10 \<and> (0::int) \<le> 7 \<and> (7::int) \<le> max 10 1500"
proof -
  have seven: "7 \<in> checkpoints 10"
    by (simp add: checkpoints_iff checkpoints_prefix_def)
  from checkpoints_contents [of 10] seven show ?thesis by auto
qed

text \<open>
  C1 as the spec states it fails: with \<open>steps = 10\<close> the prefix entry 1500 is in the
  set and lies outside \<open>[0, 10]\<close>.
\<close>

theorem checkpoints_range_counterexample:
  "(0::int) \<le> 10 \<and> 1500 \<in> checkpoints 10 \<and> \<not> (1500::int) \<le> 10"
  by (simp add: checkpoints_iff checkpoints_prefix_def)

text \<open>
  C2, as the code has it. Raising the step count from \<open>s1\<close> to \<open>s2\<close> keeps every
  checkpoint below \<open>s1\<close>. The final index \<open>s1\<close> itself is in the set only because it
  is appended last, and need not survive.
\<close>

theorem checkpoints_monotone:
  "s1 \<le> s2 \<Longrightarrow> c \<in> checkpoints s1 \<Longrightarrow> c < s1 \<Longrightarrow> c \<in> checkpoints s2"
proof -
  assume le: "s1 \<le> s2" and mem: "c \<in> checkpoints s1" and below: "c < s1"
  from mem below have "c \<in> set checkpoints_prefix \<or> c \<in> set (py_range 2000 (1 + s1) 500)"
    by (auto simp: checkpoints_iff)
  then show "c \<in> checkpoints s2"
  proof
    assume "c \<in> set checkpoints_prefix"
    then show ?thesis by (simp add: checkpoints_iff)
  next
    assume "c \<in> set (py_range 2000 (1 + s1) 500)"
    with le have "c \<in> set (py_range 2000 (1 + s2) 500)"
      using py_range_mono [of "1 + s1" "1 + s2" c 2000 500] by simp
    then show ?thesis by (simp add: checkpoints_iff)
  qed
qed

theorem checkpoints_monotone_witness:
  "(4::int) \<le> 5 \<and> 3 \<in> checkpoints 4 \<and> (3::int) < 4 \<and> 3 \<in> checkpoints 5"
proof -
  have mem: "3 \<in> checkpoints 4"
    by (simp add: checkpoints_iff checkpoints_prefix_def)
  from checkpoints_monotone [of 4 5 3] mem show ?thesis by simp
qed

text \<open>
  C2 as the spec states it fails: 4 is a checkpoint for \<open>steps = 4\<close> (the final index)
  and is not one for \<open>steps = 5\<close>.
\<close>

theorem checkpoints_monotone_counterexample:
  "(4::int) \<le> 5 \<and> (4::int) \<le> 4 \<and> 4 \<in> checkpoints 4 \<and> 4 \<notin> checkpoints 5"
  by (simp add: checkpoints_iff checkpoints_prefix_def py_range_empty)

subsection \<open>Claims about the loop\<close>

text \<open>
  The raw save of a checkpoint iteration that is a multiple of 10000 holds \<open>tf_X\<close> as
  the iteration leaves it: line 205 fetches it in a run of its own, after the run of
  line 194 that contains \<open>tf_minimize\<close>.
\<close>

lemma npy_is_after_the_step:
  assumes "i \<in> cps" and "i mod 10000 = 0"
    and "iteration E a loss_fn shape cps i s = (evs, Inr s')"
  shows "NpSave (SaveNpy i) (np_asarray [\<lparr>nd_shape = shape, nd_data = var_X s'\<rparr>]) \<in> set evs"
  using assms
  by (auto simp: iteration_def run_minimize_def Let_def sess_run_X_def
      split: sum.splits prod.splits if_splits)

text \<open>
  C3, as the code has it. On a checkpoint iteration \<open>i\<close> that starts in the state
  \<open>s\<close> and does not fail, the events begin with the projection, the run of the
  kernels on the projected \<open>tf_X\<close>, the progress line and the snapshot
  \<open>SnapshotPng i\<close>. The loss printed is the loss at the projected \<open>tf_X\<close>, that is
  before this iteration's step. The image written is the 8-bit image of \<open>tf_X\<close>
  either as projected or as the step leaves it: the graph does not order the two. The
  rate printed is the schedule at the counter before or after its increment; it does not
  depend on \<open>tf_X\<close>. Nothing else is written but, possibly, the raw save, about whose
  content this theorem says nothing.
\<close>

theorem checkpoint_outputs:
  assumes "i \<in> cps" and "iteration E a loss_fn shape cps i s = (evs, Inr s')"
  shows "\<exists>loss rate img rest.
           loss_fn (var_X (run_fix_X E s)) = Inr loss \<and>
           (rate = tf_learning_rate (arg_learning_rate a) (real_of_int (sint (var_step s))) \<or>
            rate = tf_learning_rate (arg_learning_rate a)
                     (real_of_int (sint (var_step s + 1)))) \<and>
           (img = tf_X_uint8 E shape (var_X (run_fix_X E s)) \<or>
            img = tf_X_uint8 E shape (var_X s')) \<and>
           evs = [SessRun [Tf_fix_X] (var_X s),
                  SessRun kernels (var_X (run_fix_X E s)),
                  PrintStep i (arg_steps a) loss rate,
                  ImWrite (SnapshotPng i) img] @ rest \<and>
           (rest = [] \<or> (\<exists>X arr. rest = [SessRun [Tf_X] X, NpSave (SaveNpy i) arr]))"
proof -
  let ?fixed = "run_fix_X E s"
  obtain run r where
    ran: "run_minimize E (arg_learning_rate a) loss_fn kernels i ?fixed = (run, r)"
    by (cases "run_minimize E (arg_learning_rate a) loss_fn kernels i ?fixed")
  then have run: "run = SessRun kernels (var_X ?fixed)"
    by (auto simp: run_minimize_def)
  from assms ran obtain loss rate stepped where r: "r = Inr ((loss, rate), stepped)"
    by (cases r) (auto simp: iteration_def Let_def)
  let ?img = "tf_X_uint8 E shape
      (if snapshot_after_update E i then var_X stepped else var_X ?fixed)"
  from assms ran r obtain w where written: "imwrite E (SnapshotPng i) ?img = Inr w"
    by (cases "imwrite E (SnapshotPng i) ?img")
      (auto simp: iteration_def Let_def split del: if_split)
  from ran r have "run_minimize E (arg_learning_rate a) loss_fn kernels i ?fixed
      = (run, Inr ((loss, rate), stepped))"
    by simp
  note whole = iteration_checkpoint [OF assms(1) this written]
  with assms(2) have same: "s' = stepped" and
    evs: "evs = [SessRun [Tf_fix_X] (var_X s), run, PrintStep i (arg_steps a) loss rate, w]
           @ (if i mod 10000 = 0
              then [SessRun [Tf_X] (var_X stepped),
                    NpSave (SaveNpy i) (np_asarray (sess_run_X shape stepped))]
              else [])"
    by simp_all
  from ran r have loss: "loss_fn (var_X ?fixed) = Inr loss"
    by (auto simp: run_minimize_def Let_def split: sum.splits prod.splits)
  have step: "var_step ?fixed = var_step s"
    by (simp add: run_fix_X_def)
  from ran r have rate:
    "rate = tf_learning_rate (arg_learning_rate a) (real_of_int (sint (var_step s))) \<or>
     rate = tf_learning_rate (arg_learning_rate a) (real_of_int (sint (var_step s + 1)))"
    by (auto simp: run_minimize_def Let_def step split: sum.splits prod.splits if_splits)
  have img: "?img = tf_X_uint8 E shape (var_X ?fixed) \<or> ?img = tf_X_uint8 E shape (var_X s')"
    using same by simp
  from imwrite_event [OF written] have w: "w = ImWrite (SnapshotPng i) ?img"
    by simp
  show ?thesis
    using loss rate img evs run w by (intro exI [of _ loss] exI [of _ rate] exI [of _ ?img]) auto
qed

theorem checkpoint_outputs_witness:
  "0 \<in> checkpoints 1 \<and>
   snd (iteration demo_env demo_args demo_loss [1, 2, 1, 3] (checkpoints 1) 0 demo_start) =
     Inr \<lparr>var_X = demo_quarter, var_step = 1, var_opt = ()\<rparr> \<and>
   (\<exists>loss rate img rest.
      demo_loss (var_X (run_fix_X demo_env demo_start)) = Inr loss \<and>
      take 6 (drop 5 demo_trace) =
        [SessRun [Tf_fix_X] (var_X demo_start),
         SessRun kernels (var_X (run_fix_X demo_env demo_start)),
         PrintStep 0 (arg_steps demo_args) loss rate,
         ImWrite (SnapshotPng 0) img]
        @ rest)"
proof -
  have mem: "0 \<in> checkpoints 1"
    by (simp add: checkpoints_iff checkpoints_prefix_def)
  from checkpoint_outputs [OF mem demo_iteration] mem demo_iteration
  show ?thesis by (simp only: snd_conv) blast
qed

text \<open>
  C3 as the spec states it fails for the raw save. In the small run, iteration 0 is a
  checkpoint and a multiple of 10000; the run of the kernels starts with the projected
  \<open>tf_X\<close>, 0.5 everywhere, and \<open>SaveNpy 0\<close> holds 0.25 everywhere, the value after
  the step.
\<close>

theorem raw_save_counterexample:
  "0 \<in> checkpoints (arg_steps demo_args) \<and>
   SessRun kernels demo_half \<in> set (fst (main demo_env demo_args)) \<and>
   NpSave (SaveNpy 0) \<lparr>nd_shape = [1, 1, 2, 1, 3], nd_data = demo_quarter\<rparr>
     \<in> set (fst (main demo_env demo_args)) \<and>
   demo_quarter \<noteq> demo_half"
proof -
  have "0 \<in> checkpoints (arg_steps demo_args)"
    by (simp add: checkpoints_iff checkpoints_prefix_def)
  then show ?thesis
    by (simp add: demo_main demo_trace_def demo_half_def demo_quarter_def)
qed



text \<open>
  C5, as the code has it. The projection clips to the float32 values of the bounds, of
  which the lower lies below \<open>TOLERANCE\<close> and the upper below \<open>1 - TOLERANCE\<close>.
  After \<open>sess.run([tf_fix_X])\<close> every element that was not NaN is a number between the
  float32 bounds, whatever it was before; every element is such a number or what the
  device leaves of a NaN. A run that fetches \<open>tf_minimize\<close> reports the \<open>tf_X\<close> of
  the state it is given, and in a run of the script every \<open>sess.run\<close> that evaluates
  the loss or takes the optimizer's step starts with \<open>tf_X\<close> so projected.
\<close>

theorem projection_range:
  "(\<forall>k < length (var_X s0). var_X s0 ! k \<noteq> NaN \<longrightarrow>
      (\<exists>y. var_X (run_fix_X E s0) ! k = Num y \<and>
           f32_TOLERANCE \<le> y \<and> y \<le> f32_ONE_MINUS_TOLERANCE)) \<and>
   (\<forall>x \<in> set (var_X (run_fix_X E s0)). projected E x) \<and>
   f32_TOLERANCE < TOLERANCE \<and> f32_ONE_MINUS_TOLERANCE < 1 - TOLERANCE \<and>
   fst (run_minimize E learning_rate loss_fn fetches i s0) = SessRun fetches (var_X s0) \<and>
   (\<forall>e \<in> set (fst (main E a)). \<forall>fetches X.
      e = SessRun fetches X \<and> (Tf_loss \<in> set fetches \<or> Tf_minimize \<in> set fetches) \<longrightarrow>
      (\<forall>x \<in> set X. projected E x))"
proof (intro conjI ballI allI impI)
  fix k assume "k < length (var_X s0)" and "var_X s0 ! k \<noteq> NaN"
  then show "\<exists>y. var_X (run_fix_X E s0) ! k = Num y \<and>
                f32_TOLERANCE \<le> y \<and> y \<le> f32_ONE_MINUS_TOLERANCE"
    using clip_in_range [OF f32_bounds(3), of "var_X s0 ! k" "nan_clipped E"]
    by (simp add: run_fix_X_def)
next
  fix x assume "x \<in> set (var_X (run_fix_X E s0))"
  then show "projected E x" by (rule run_fix_X_range)
next
  show "f32_TOLERANCE < TOLERANCE" and "f32_ONE_MINUS_TOLERANCE < 1 - TOLERANCE"
    by (rule f32_bounds)+
next
  show "fst (run_minimize E learning_rate loss_fn fetches i s0) = SessRun fetches (var_X s0)"
    by (simp add: run_minimize_def)
next
  fix e fetches X x
  assume e: "e \<in> set (fst (main E a))"
    and run: "e = SessRun fetches X \<and> (Tf_loss \<in> set fetches \<or> Tf_minimize \<in> set fetches)"
    and x: "x \<in> set X"
  from main_events [OF e] run obtain loss_fn init_image
    where "e \<in> set (fst (session E a loss_fn init_image))"
    by (auto dest: load_inputs_events)
  from session_events [OF this] obtain j s where
    "e \<in> set (fst (iteration E a loss_fn (nd_shape init_image) (checkpoints (arg_steps a)) j s))"
    by blast
  from iteration_events [OF this] run have "X = var_X (run_fix_X E s)"
    by (auto simp: kernels_def)
  with x show "projected E x"
    by (simp add: run_fix_X_range)
qed

theorem projection_range_witness:
  "(7::nat) < length (var_X demo_outside) \<and> var_X demo_outside ! 3 \<noteq> NaN \<and>
   var_X demo_outside ! 3 = Num 2 \<and>
   var_X (run_fix_X demo_env demo_outside) ! 3 = Num f32_ONE_MINUS_TOLERANCE \<and>
   var_X demo_outside ! 5 = PosInf \<and>
   var_X (run_fix_X demo_env demo_outside) ! 5 = Num f32_ONE_MINUS_TOLERANCE \<and>
   SessRun kernels demo_quarter \<in> set (fst (main demo_env demo_args)) \<and>
   Tf_minimize \<in> set kernels \<and>
   projected demo_env (Num (1 / 4))"
proof -
  have clipped: "var_X demo_outside ! 3 = Num 2"
      "var_X (run_fix_X demo_env demo_outside) ! 3 = Num f32_ONE_MINUS_TOLERANCE"
      "var_X demo_outside ! 5 = PosInf"
      "var_X (run_fix_X demo_env demo_outside) ! 5 = Num f32_ONE_MINUS_TOLERANCE"
    by (simp_all add: run_fix_X_def demo_outside_def f32_TOLERANCE_def
        f32_ONE_MINUS_TOLERANCE_def)
  have len: "(7::nat) < length (var_X demo_outside)"
    by (simp add: demo_outside_def)
  have ran: "SessRun kernels demo_quarter \<in> set (fst (main demo_env demo_args))"
    by (simp add: demo_main demo_trace_def)
  have fetched: "Tf_minimize \<in> set kernels"
    by (simp add: kernels_def)
  have quarter: "Num (1 / 4) \<in> set demo_quarter"
    by (simp add: demo_quarter_def)
  from projection_range [where E = demo_env and a = demo_args and ?s0.0 = demo_outside] ran fetched quarter
  have "projected demo_env (Num (1 / 4))" by blast
  with clipped len ran fetched show ?thesis by simp
qed

text \<open>
  C5 as the spec states it fails: the element 0 is projected to the float32 value of
  \<open>TOLERANCE\<close>, which is less than \<open>TOLERANCE\<close>; and on a device that leaves NaN
  as it is, NaN stays.
\<close>

theorem projection_counterexample:
  "var_X demo_outside ! 0 = Num 0 \<and>
   var_X (run_fix_X demo_env demo_outside) ! 0 = Num f32_TOLERANCE \<and>
   f32_TOLERANCE < TOLERANCE \<and>
   var_X (run_fix_X demo_env demo_outside) ! 7 = NaN"
proof -
  have "f32_TOLERANCE < TOLERANCE"
    by (simp add: f32_TOLERANCE_def TOLERANCE_def)
  then show ?thesis
    by (simp add: run_fix_X_def demo_outside_def demo_env_def f32_TOLERANCE_def
        f32_ONE_MINUS_TOLERANCE_def)
qed

text \<open>
  C9. The loop visits the indices \<open>0 .. steps\<close>; although 1500 is always in the
  checkpoint set, every snapshot and every raw save a run writes has an index between 0
  and \<open>steps\<close>.
\<close>

theorem snapshot_indices:
  "py_range 0 (1 + arg_steps a) 1 = [0..arg_steps a] \<and>
   1500 \<in> checkpoints (arg_steps a) \<and>
   (\<forall>e \<in> set (fst (main E a)). \<forall>i.
      written_file e = Some (SnapshotPng i) \<or> written_file e = Some (SaveNpy i) \<longrightarrow>
      0 \<le> i \<and> i \<le> arg_steps a)"
proof (intro conjI ballI allI impI)
  show "py_range 0 (1 + arg_steps a) 1 = [0..arg_steps a]"
    by (rule loop_indices)
  show "1500 \<in> checkpoints (arg_steps a)"
    by (simp add: checkpoints_iff checkpoints_prefix_def)
next
  fix e i
  assume e: "e \<in> set (fst (main E a))"
    and named: "written_file e = Some (SnapshotPng i) \<or> written_file e = Some (SaveNpy i)"
  from main_events [OF e] named obtain loss_fn init_image
    where "e \<in> set (fst (session E a loss_fn init_image))"
    by (auto simp: written_file_def dest: load_inputs_events)
  from session_events [OF this] obtain j s where j: "0 \<le> j" "j \<le> arg_steps a"
    and "e \<in> set (fst (iteration E a loss_fn (nd_shape init_image)
                          (checkpoints (arg_steps a)) j s))"
    by blast
  from iteration_events [OF this(3)] named have "i = j"
    by (auto simp: written_file_def)
  with j show "0 \<le> i" and "i \<le> arg_steps a" by simp_all
qed

theorem snapshot_indices_witness:
  "py_range 0 (1 + arg_steps demo_args) 1 = [0..arg_steps demo_args] \<and>
   1500 \<in> checkpoints (arg_steps demo_args) \<and> \<not> 1500 \<le> arg_steps demo_args \<and>
   ImWrite (SnapshotPng 1) \<lparr>nd_shape = [2, 1, 3], nd_data = [64, 64, 64, 64, 64, 64]\<rparr>
     \<in> set (fst (main demo_env demo_args)) \<and>
   written_file (ImWrite (SnapshotPng 1) \<lparr>nd_shape = [2, 1, 3], nd_data = [64, 64, 64, 64, 64, 64]\<rparr>)
     = Some (SnapshotPng 1) \<and>
   (0::int) \<le> 1 \<and> 1 \<le> arg_steps demo_args"
proof -
  have written: "ImWrite (SnapshotPng 1) \<lparr>nd_shape = [2, 1, 3], nd_data = [64, 64, 64, 64, 64, 64]\<rparr>
                   \<in> set (fst (main demo_env demo_args))"
    by (simp add: demo_main demo_trace_def)
  have named: "written_file (ImWrite (SnapshotPng 1)
                \<lparr>nd_shape = [2, 1, 3], nd_data = [64, 64, 64, 64, 64, 64]\<rparr>) = Some (SnapshotPng 1)"
    by (simp add: written_file_def)
  have small: "\<not> 1500 \<le> arg_steps demo_args"
    by (simp add: demo_args_def)
  have steps: "arg_steps demo_args = 1"
    by (simp add: demo_args_def)
  from snapshot_indices [of demo_args demo_env] written named small steps
  show ?thesis by simp
qed

text \<open>
  C10, as the code has it. Every raw save of a run is the array of the one-element list
  \<open>sess.run([tf_X])\<close> returns: its elements are those \<open>tf_X\<close> holds in that run, and
  its shape is \<open>(1, 1, H, W, min C 3)\<close>, where the first image loaded with the shape
  \<open>(H, W, C)\<close>: one more leading dimension than the shape \<open>(1, H, W, min C 3)\<close> of
  \<open>tf_X\<close>.
\<close>

theorem raw_save_shape:
  assumes "NpSave f arr \<in> set (fst (main E a))"
  shows "\<exists>loaded H W C i.
           load_image E (fst (arg_images a)) = Inr loaded \<and> nd_shape loaded = [H, W, C] \<and>
           f = SaveNpy i \<and>
           arr = np_asarray [\<lparr>nd_shape = [1, H, W, min C 3], nd_data = nd_data arr\<rparr>] \<and>
           nd_shape arr = [1, 1, H, W, min C 3] \<and>
           SessRun [Tf_X] (nd_data arr) \<in> set (fst (main E a))"
proof -
  from main_events [OF assms] obtain evs images0 images1 init_image loss_fn
    where loaded: "load_inputs E a = (evs, Inr (images0, images1))"
      and init: "initial_image E a (nd_shape images0) = Inr init_image"
      and ev: "NpSave f arr \<in> set (fst (session E a loss_fn init_image))"
      and sub: "set (fst (session E a loss_fn init_image)) \<subseteq> set (fst (main E a))"
    by (auto dest: load_inputs_events)
  from load_inputs_shape [OF loaded] obtain loaded0 H W C
    where first: "load_image E (fst (arg_images a)) = Inr loaded0"
      and shape0: "nd_shape loaded0 = [H, W, C]"
      and shape1: "nd_shape images0 = [1, H, W, min C 3]"
    by blast
  from init shape1 have shape: "nd_shape init_image = [1, H, W, min C 3]"
    by (simp add: initial_image_shape)
  from session_events [OF ev] obtain i s where
    it: "NpSave f arr \<in> set (fst (iteration E a loss_fn (nd_shape init_image)
                                    (checkpoints (arg_steps a)) i s))"
    and sub': "set (fst (iteration E a loss_fn (nd_shape init_image)
                           (checkpoints (arg_steps a)) i s))
                 \<subseteq> set (fst (session E a loss_fn init_image))"
    by blast
  from raw_save_is_tf_X [OF it] shape have
    "f = SaveNpy i"
    "arr = np_asarray [\<lparr>nd_shape = [1, H, W, min C 3], nd_data = nd_data arr\<rparr>]"
    "nd_shape arr = [1, 1, H, W, min C 3]"
    "SessRun [Tf_X] (nd_data arr)
       \<in> set (fst (iteration E a loss_fn (nd_shape init_image) (checkpoints (arg_steps a)) i s))"
    by simp_all
  with first shape0 sub sub' show ?thesis by blast
qed

theorem raw_save_shape_witness:
  "NpSave (SaveNpy 0) \<lparr>nd_shape = [1, 1, 2, 1, 3], nd_data = demo_quarter\<rparr>
     \<in> set (fst (main demo_env demo_args)) \<and>
   (\<exists>loaded H W C i.
      load_image demo_env (fst (arg_images demo_args)) = Inr loaded \<and>
      nd_shape loaded = [H, W, C] \<and> SaveNpy 0 = SaveNpy i \<and>
      nd_shape \<lparr>nd_shape = [1, 1, 2, 1, 3], nd_data = demo_quarter\<rparr>
        = [1, 1, H, W, min C 3] \<and>
      SessRun [Tf_X] (nd_data \<lparr>nd_shape = [1, 1, 2, 1, 3], nd_data = demo_quarter\<rparr>)
        \<in> set (fst (main demo_env demo_args)))"
proof -
  have saved: "NpSave (SaveNpy 0) \<lparr>nd_shape = [1, 1, 2, 1, 3], nd_data = demo_quarter\<rparr>
     \<in> set (fst (main demo_env demo_args))"
    by (simp add: demo_main demo_trace_def)
  from raw_save_shape [OF saved] saved
  show ?thesis by blast
qed

text \<open>
  C10 as the spec states it fails in the number of channels: for a raw input array of 1
  by 1 pixels and two channels the raw save has the shape \<open>(1, 1, 1, 1, 2)\<close>.
\<close>

theorem raw_save_channels_counterexample:
  "load_image demo_env (fst (arg_images demo_args_two))
     = Inr \<lparr>nd_shape = [1, 1, 2], nd_data = [0, 1]\<rparr> \<and>
   NpSave (SaveNpy 0) \<lparr>nd_shape = [1, 1, 1, 1, 2], nd_data = [Num (1 / 4), Num (1 / 4)]\<rparr>
     \<in> set (fst (main demo_env demo_args_two)) \<and>
   [1, 1, 1, 1, 2] \<noteq> [1, 1, 1, 1, 3::nat]"
proof -
  have "fst (arg_images demo_args_two) = ''g.npy''"
    by (simp add: demo_args_two_def)
  then show ?thesis
    by (simp add: demo_load_g demo_main_two demo_trace_two_def)
qed

subsection \<open>Claims about the set-up\<close>

text \<open>
  C6, evaluated. For an image of 64 by 48 pixels and three channels line 116 computes
  the arguments 48 and 3: the width and the number of channels, not the height and the
  width. In the small run the second image is 2 pixels high and 1 pixel wide, and
  \<open>set_scale_levels_by_image_size\<close> is called with 1 and 3 and never with 2 and 1.
\<close>

theorem scale_levels_call:
  "scale_level_args (expand_dims0 \<lparr>nd_shape = [64, 48, 3], nd_data = d\<rparr>) = Inr (48, 3) \<and>
   load_image demo_env (snd (arg_images demo_args))
     = Inr \<lparr>nd_shape = [2, 1, 4], nd_data = [0, 1, 0, 1, 1, 0, 0, 1]\<rparr> \<and>
   SetScaleLevels 1 3 \<in> set (fst (main demo_env demo_args)) \<and>
   SetScaleLevels 2 1 \<notin> set (fst (main demo_env demo_args))"
proof -
  have large: "scale_level_args (expand_dims0 \<lparr>nd_shape = [64, 48, 3], nd_data = d\<rparr>)
                 = Inr (48, 3)"
    by (rule scale_level_args_of_image) simp
  have "snd (arg_images demo_args) = ''b.png''"
    by (simp add: demo_args_def)
  then have "load_image demo_env (snd (arg_images demo_args))
     = Inr \<lparr>nd_shape = [2, 1, 4], nd_data = [0, 1, 0, 1, 1, 0, 0, 1]\<rparr> \<and>
   SetScaleLevels 1 3 \<in> set (fst (main demo_env demo_args)) \<and>
   SetScaleLevels 2 1 \<notin> set (fst (main demo_env demo_args))"
    by (simp add: demo_load_b demo_main demo_trace_def kernels_def)
  with large show ?thesis by blast
qed



text \<open>
  C8, as the code has it. The shapes compared are those of the two images cut to their
  first three channels. When both images load, both cuts succeed and the cut shapes
  differ, the script ends with the error that names the second path, and all it has done
  is create the output directory.
\<close>

theorem shape_mismatch_is_fatal:
  assumes "arg_metric a \<in> set supported_metrics"
    and "load_image E (fst (arg_images a)) = Inr loaded0"
    and "first_channels loaded0 = Inr src_image"
    and "load_image E (snd (arg_images a)) = Inr loaded1"
    and "first_channels loaded1 = Inr dest_image"
    and "nd_shape src_image \<noteq> nd_shape dest_image"
  shows "main E a = ([MakeDirs (arg_outdir a)], Some (WrongShape (snd (arg_images a))))"
proof -
  from assms(2-6) have
    "load_inputs E a = ([MakeDirs (arg_outdir a)], Inl (WrongShape (snd (arg_images a))))"
    by (simp add: load_inputs_def expand_dims0_def)
  with assms(1) show ?thesis
    by (simp add: main_def)
qed

theorem shape_mismatch_is_fatal_witness:
  "arg_metric demo_args_mismatch \<in> set supported_metrics \<and>
   load_image demo_env (fst (arg_images demo_args_mismatch))
     = Inr \<lparr>nd_shape = [2, 1, 3], nd_data = [1, 0, 0, 0, 1, 0]\<rparr> \<and>
   load_image demo_env (snd (arg_images demo_args_mismatch))
     = Inr \<lparr>nd_shape = [1, 1, 3], nd_data = [0, 0, 0]\<rparr> \<and>
   main demo_env demo_args_mismatch = ([MakeDirs ''out_bary2''], Some (WrongShape ''c.png''))"
proof -
  have metric: "arg_metric demo_args_mismatch \<in> set supported_metrics"
    by (simp add: demo_args_mismatch_def demo_args_def supported_metrics_def)
  have l0: "load_image demo_env (fst (arg_images demo_args_mismatch))
     = Inr \<lparr>nd_shape = [2, 1, 3], nd_data = [1, 0, 0, 0, 1, 0]\<rparr>"
    by (simp add: demo_args_mismatch_def demo_load_a)
  have l1: "load_image demo_env (snd (arg_images demo_args_mismatch))
     = Inr \<lparr>nd_shape = [1, 1, 3], nd_data = [0, 0, 0]\<rparr>"
    by (simp add: demo_args_mismatch_def demo_load_c)
  have differ: "nd_shape \<lparr>nd_shape = [2, 1, 3], nd_data = take_blocks (2 * 1) 3 3 [1, 0, 0, 0, 1, (0::real)]\<rparr>
      \<noteq> nd_shape \<lparr>nd_shape = [1, 1, 3], nd_data = take_blocks (1 * 1) 3 3 [0, 0, 0::real]\<rparr>"
    by simp
  from shape_mismatch_is_fatal [OF metric l0 first_channels_rgb l1 first_channels_rgb differ]
    metric l0 l1
  show ?thesis by (simp add: demo_args_mismatch_def demo_args_def)
qed

text \<open>
  C8 as the spec states it fails: in the small run the two images have the shapes
  \<open>(2, 1, 3)\<close> and \<open>(2, 1, 4)\<close>, and the script runs to its end without an error,
  writing \<open>dest_image.png\<close> among the rest.
\<close>

theorem channel_count_counterexample:
  "load_image demo_env (fst (arg_images demo_args))
     = Inr \<lparr>nd_shape = [2, 1, 3], nd_data = [1, 0, 0, 0, 1, 0]\<rparr> \<and>
   load_image demo_env (snd (arg_images demo_args))
     = Inr \<lparr>nd_shape = [2, 1, 4], nd_data = [0, 1, 0, 1, 1, 0, 0, 1]\<rparr> \<and>
   [2, 1, 3] \<noteq> [2, 1, 4::nat] \<and>
   snd (main demo_env demo_args) = None \<and>
   ImWrite DestImagePng \<lparr>nd_shape = [2, 1, 3], nd_data = [0, 255, 0, 255, 0, 0]\<rparr>
     \<in> set (fst (main demo_env demo_args))"
proof -
  have "arg_images demo_args = (''a.png'', ''b.png'')"
    by (simp add: demo_args_def)
  then show ?thesis
    by (simp add: demo_load_a demo_load_b demo_main demo_trace_def)
qed

end
